theory Spec2Isabelle
  imports Main "HOL-Library.Code_Target_Numeral"
begin

section \<open>Values\<close>

text \<open>
  \<^verbatim>\<open>type Item = string | number;\<close>

  A number of the language is an IEEE 754 double. The program only ever holds
  integer-valued numbers, so \<open>Num n\<close> carries the integer value \<open>n\<close> of such a number; the
  rounding that the double format imposes on a sum is written out in \<open>to_number\<close> below.
  Fractions, NaN and the infinities do not occur in the program and have no
  representation here.
\<close>

datatype item = Num int | Str string

text \<open>The exceptions of the built-in operations the program calls.\<close>

datatype error = RangeError | TypeError

subsection \<open>Double precision on integers\<close>

text \<open>
  \<open>bit_len m\<close> is the number of binary digits of \<open>m\<close>. A double has a 53-bit
  significand: an integer of at most 53 bits is stored exactly, a longer one keeps its 53
  leading bits, rounded to nearest, a tie going to the even significand.
\<close>

fun bit_len :: "nat \<Rightarrow> nat" where
  "bit_len m = (if m = 0 then 0 else Suc (bit_len (m div 2)))"

definition round_nat :: "nat \<Rightarrow> nat" where
  "round_nat m =
     (if m < 2 ^ 53 then m
      else
        let k = bit_len m - 53;
            q = m div 2 ^ k;
            r = m mod 2 ^ k;
            half = 2 ^ (k - 1)
        in (if half < r \<or> (r = half \<and> q mod 2 = 1) then q + 1 else q) * 2 ^ k)"

definition to_number :: "int \<Rightarrow> int" where
  "to_number i = (if i < 0 then - int (round_nat (nat (- i))) else int (round_nat (nat i)))"

text \<open>
  \<^verbatim>\<open>x => x + 1\<close>

  On a number, \<open>+\<close> is the exact sum rounded to a double (adding one to a finite double
  never overflows to infinity). The callback is only ever applied to numbers (its
  parameter has the static type \<open>number\<close>); on a string, the language's \<open>+\<close> concatenates
  the string with the decimal text of \<open>1\<close>.
\<close>

fun add_one :: "item \<Rightarrow> item" where
  "add_one (Num x) = Num (to_number (x + 1))"
| "add_one (Str s) = Str (s @ ''1'')"

text \<open>\<^verbatim>\<open>typeof x === "number"\<close>: what the declared type \<open>Array<number>\<close> promises of an element.\<close>

fun is_number :: "item \<Rightarrow> bool" where
  "is_number (Num x) = True"
| "is_number (Str s) = False"

section \<open>The store\<close>

text \<open>
  An array is an object: a variable or a parameter holds a reference to it, and two
  references to one array see each other's writes. Besides its elements in index order
  (the sequence) an array carries two attributes that decide whether it can grow:
  whether properties can be added to it (\<^verbatim>\<open>Object.preventExtensions\<close>,
  \<^verbatim>\<open>Object.seal\<close> and \<^verbatim>\<open>Object.freeze\<close> clear it), and whether its \<open>length\<close> can be
  written (\<^verbatim>\<open>Object.freeze\<close> clears it, and so does redefining \<open>length\<close> as read-only).
\<close>

record array =
  elems :: "item list"
  extensible :: bool
  length_writable :: bool

text \<open>An array as a literal or \<open>map\<close> creates it: extensible, its length writable.\<close>

definition new_array :: "item list \<Rightarrow> array" where
  "new_array xs = \<lparr>elems = xs, extensible = True, length_writable = True\<rparr>"

text \<open>
  The store is the list of all arrays created so far, a reference is a position in it.
  \<open>deref\<close> gives the array a reference denotes, \<open>lookup\<close> its sequence.
\<close>

type_synonym ref = nat
type_synonym store = "array list"

definition deref :: "store \<Rightarrow> ref \<Rightarrow> array option" where
  "deref h r = (if r < length h then Some (h ! r) else None)"

definition lookup :: "store \<Rightarrow> ref \<Rightarrow> item list option" where
  "lookup h r = (if r < length h then Some (elems (h ! r)) else None)"

text \<open>An array literal creates a new array, at a reference not in use.\<close>

definition alloc :: "item list \<Rightarrow> store \<Rightarrow> ref \<times> store" where
  "alloc xs h = (length h, h @ [new_array xs])"

text \<open>The greatest length an array can have.\<close>

definition max_array_length :: nat where
  "max_array_length = 2 ^ 32 - 1"

text \<open>
  \<^verbatim>\<open>Array.prototype.map\<close>: a new array holding the callback's result on each element, in
  order; the array it is called on is only read. A reference that denotes no array of
  the store stands for a value without a \<open>map\<close> method: calling it is a \<open>TypeError\<close>.
\<close>

definition array_map :: "(item \<Rightarrow> item) \<Rightarrow> ref \<Rightarrow> store \<Rightarrow> (error + ref) \<times> store" where
  "array_map f a h =
     (case lookup h a of
        None \<Rightarrow> (Inl TypeError, h)
      | Some xs \<Rightarrow> (let (b, h') = alloc (map f xs) h in (Inr b, h')))"

text \<open>
  \<^verbatim>\<open>Array.prototype.push\<close> with one argument: the element is stored at index
  \<open>length\<close> of the array itself, the length is set to one more, and the new length is
  returned. The two writes are made with failure raising:
  \<^item> on an array that is not extensible the new property cannot be created, and on one
    whose length is read-only neither the element beyond the length nor the length can
    be written: \<open>TypeError\<close>;
  \<^item> an array already of the greatest length cannot grow: setting its length raises
    \<open>RangeError\<close> (the value is left behind under a property name that is not an index;
    the store keeps no such properties).
  In each of these cases the indexed elements and the length stay as they were.
\<close>

definition array_push :: "ref \<Rightarrow> item \<Rightarrow> store \<Rightarrow> (error + nat) \<times> store" where
  "array_push r v h =
     (case deref h r of
        None \<Rightarrow> (Inl TypeError, h)
      | Some a \<Rightarrow>
          if extensible a \<and> length_writable a
          then
            if length (elems a) < max_array_length
            then (Inr (Suc (length (elems a))), h[r := a\<lparr>elems := elems a @ [v]\<rparr>])
            else (Inl RangeError, h)
          else (Inl TypeError, h))"

section \<open>The program\<close>

text \<open>
  \<^verbatim>\<open>
  const mutateItems = (items: Array<Item>): void => {
    items.push("Hello world");
  }
  \<close>
  The length that \<open>push\<close> returns is dropped; an exception of \<open>push\<close> leaves the
  function.
\<close>

definition mutateItems :: "ref \<Rightarrow> store \<Rightarrow> (error + unit) \<times> store" where
  "mutateItems items h =
     (case array_push items (Str ''Hello world'') h of
        (Inl e, h') \<Rightarrow> (Inl e, h')
      | (Inr n, h') \<Rightarrow> (Inr (), h'))"

text \<open>
  What a run could observe and change: the store, what the host offers it to read
  (standard input, standing for every external source), and the entries written to
  standard output so far.
\<close>

record world =
  heap :: store
  stdin :: "string list"
  stdout :: "string list"

text \<open>
  \<^verbatim>\<open>console.log\<close> belongs to the host, not to the program: how it renders an array as
  text is the parameter \<open>render\<close>. It writes one entry to standard output and changes
  nothing else.
\<close>

definition console_log :: "(item list \<Rightarrow> string) \<Rightarrow> ref \<Rightarrow> world \<Rightarrow> (error + unit) \<times> world" where
  "console_log render r w =
     (case lookup (heap w) r of
        None \<Rightarrow> (Inl TypeError, w)
      | Some xs \<Rightarrow> (Inr (), w\<lparr>stdout := stdout w @ [render xs]\<rparr>))"

text \<open>
  \<^verbatim>\<open>const list = [1, 2, 3].map(x => x + 1);\<close>

  The literal is sequence A, the result of \<open>map\<close> is sequence B.
\<close>

definition list_init :: "store \<Rightarrow> (error + ref) \<times> store" where
  "list_init h = (let (a, h1) = alloc [Num 1, Num 2, Num 3] h in array_map add_one a h1)"

text \<open>
  \<^verbatim>\<open>const numbers: Array<number> = [1, 2, 3];\<close>

  Sequence C.
\<close>

definition numbers_init :: "store \<Rightarrow> ref \<times> store" where
  "numbers_init h = alloc [Num 1, Num 2, Num 3] h"

text \<open>
  The top-level statements, in order. An exception that nothing catches ends the run at
  the statement that raised it.
\<close>

definition main :: "(item list \<Rightarrow> string) \<Rightarrow> world \<Rightarrow> (error + unit) \<times> world" where
  "main render w0 =
     (case list_init (heap w0) of
        (Inl e, h1) \<Rightarrow> (Inl e, w0\<lparr>heap := h1\<rparr>)
      | (Inr list, h1) \<Rightarrow>
     (case console_log render list (w0\<lparr>heap := h1\<rparr>) of
        (Inl e, w2) \<Rightarrow> (Inl e, w2)
      | (Inr u, w2) \<Rightarrow>
     (let (numbers, h3) = numbers_init (heap w2) in
      case mutateItems numbers h3 of
        (Inl e, h4) \<Rightarrow> (Inl e, w2\<lparr>heap := h4\<rparr>)
      | (Inr u, h4) \<Rightarrow> console_log render numbers (w2\<lparr>heap := h4\<rparr>))))"

text \<open>
  A run starts with nothing written; \<open>h0\<close> is whatever the host has already created and
  \<open>inp\<close> the input it offers.
\<close>

definition run :: "(item list \<Rightarrow> string) \<Rightarrow> store \<Rightarrow> string list \<Rightarrow> (error + unit) \<times> world" where
  "run render h0 inp = main render \<lparr>heap = h0, stdin = inp, stdout = []\<rparr>"

section \<open>The text of a sequence\<close>

text \<open>
  Modelled from the spec: the formatter behind \<^verbatim>\<open>console.log\<close> is the host's and is
  not part of the sources. The specification gives the text of the two sequences printed
  (section 6): the elements in order, separated by a comma and a space, between square
  brackets; an integer in decimal, a string between double quotes.
\<close>

fun digits :: "nat \<Rightarrow> string" where
  "digits n =
     (if n < 10 then [''0123456789'' ! n]
      else digits (n div 10) @ [''0123456789'' ! (n mod 10)])"

definition show_number :: "int \<Rightarrow> string" where
  "show_number i = (if i < 0 then ''-'' @ digits (nat (- i)) else digits (nat i))"

fun show_item :: "item \<Rightarrow> string" where
  "show_item (Num x) = show_number x"
| "show_item (Str s) = [CHR 0x22] @ s @ [CHR 0x22]"

fun separate :: "string list \<Rightarrow> string" where
  "separate [] = []"
| "separate [s] = s"
| "separate (s # t # ss) = s @ '', '' @ separate (t # ss)"

definition spec_render :: "item list \<Rightarrow> string" where
  "spec_render xs = ''['' @ separate (map show_item xs) @ '']''"

section \<open>Facts about the store and the numbers\<close>

lemma deref_SomeD: "deref h r = Some a \<Longrightarrow> r < length h \<and> h ! r = a"
  by (auto simp: deref_def split: if_splits)

lemma lookup_SomeD: "lookup h r = Some xs \<Longrightarrow> r < length h \<and> elems (h ! r) = xs"
  by (auto simp: lookup_def split: if_splits)

lemma lookup_update_same: "r < length h \<Longrightarrow> lookup (h[r := a]) r = Some (elems a)"
  by (simp add: lookup_def)

lemma deref_update_other: "r' \<noteq> r \<Longrightarrow> deref (h[r := a]) r' = deref h r'"
  by (simp add: deref_def)

lemma lookup_append_old: "lookup h r = Some xs \<Longrightarrow> lookup (h @ g) r = Some xs"
  by (auto simp: lookup_def nth_append split: if_splits)

lemma lookup_append_new: "lookup (h @ [new_array xs]) (length h) = Some xs"
  by (simp add: lookup_def new_array_def)

lemma lookup_append_mid: "lookup (h @ new_array xs # g) (length h) = Some xs"
  by (simp add: lookup_def new_array_def)

lemma array_map_ok:
  assumes "lookup h a = Some xs"
  shows "array_map f a h = (Inr (length h), h @ [new_array (map f xs)])"
  using assms by (simp add: array_map_def alloc_def)

text \<open>The three ways a call of \<open>mutateItems\<close> on an array can end.\<close>

lemma mutateItems_ok:
  assumes "deref h items = Some a" and "extensible a" and "length_writable a"
    and "length (elems a) < max_array_length"
  shows "mutateItems items h
           = (Inr (), h[items := a\<lparr>elems := elems a @ [Str ''Hello world'']\<rparr>])"
  using assms by (simp add: mutateItems_def array_push_def)

lemma mutateItems_full:
  assumes "deref h items = Some a" and "extensible a" and "length_writable a"
    and "\<not> length (elems a) < max_array_length"
  shows "mutateItems items h = (Inl RangeError, h)"
  using assms by (simp add: mutateItems_def array_push_def)

lemma mutateItems_fixed:
  assumes "deref h items = Some a" and "\<not> (extensible a \<and> length_writable a)"
  shows "mutateItems items h = (Inl TypeError, h)"
  using assms by (simp add: mutateItems_def array_push_def)

lemma mutateItems_new_array:
  assumes "length xs < max_array_length"
  shows "mutateItems (length h) (h @ [new_array xs])
           = (Inr (), h @ [new_array (xs @ [Str ''Hello world''])])"
  using assms
  by (simp add: mutateItems_def array_push_def deref_def new_array_def)

text \<open>\<open>2 ^ 53\<close> has 54 binary digits, all but the first of them zero.\<close>

lemma bit_len_bound: "bit_len 9007199254740992 = 54"
  by code_simp

lemma round_nat_exact: "m \<le> 2 ^ 53 \<Longrightarrow> round_nat m = m"
proof (cases "m < 2 ^ 53")
  case True
  then show ?thesis by (simp add: round_nat_def)
next
  case False
  assume "m \<le> 2 ^ 53"
  with False have m: "m = 2 ^ 53" by simp
  show ?thesis unfolding m round_nat_def
    by (simp add: bit_len_bound Let_def del: bit_len.simps)
qed

lemma to_number_exact: "- (2 ^ 53) \<le> i \<Longrightarrow> i \<le> 2 ^ 53 \<Longrightarrow> to_number i = i"
  by (simp add: to_number_def round_nat_exact)

lemma add_one_exact: "- (2 ^ 53) \<le> x \<Longrightarrow> x < 2 ^ 53 \<Longrightarrow> add_one (Num x) = Num (x + 1)"
  by (simp add: to_number_exact)

text \<open>The whole run, from any store and with any input.\<close>

lemma run_result:
  "run render h0 inp =
     (Inr (),
      \<lparr>heap = h0 @ [new_array [Num 1, Num 2, Num 3], new_array [Num 2, Num 3, Num 4],
                     new_array [Num 1, Num 2, Num 3, Str ''Hello world'']],
       stdin = inp,
       stdout = [render [Num 2, Num 3, Num 4],
                 render [Num 1, Num 2, Num 3, Str ''Hello world'']]\<rparr>)"
  by (simp add: run_def main_def list_init_def numbers_init_def alloc_def array_map_def
      lookup_def deref_def new_array_def console_log_def mutateItems_def array_push_def
      max_array_length_def to_number_def round_nat_def nth_append)

section \<open>The output of the program\<close>

text \<open>
  C1. A run with no input ends normally and writes exactly two entries to standard
  output, in this order: the text of sequence B, which is \<open>[2, 3, 4]\<close>, then the text of
  sequence C after the mutation, which is \<open>[1, 2, 3, "Hello world"]\<close>. This holds for
  whatever formatter the host gives \<open>console.log\<close>; with the formatter the specification
  describes, the two lines are the two texts it quotes.
\<close>

theorem main_prints_two_lines:
  \<open>fst (run render h0 []) = Inr () \<and>
   stdout (snd (run render h0 [])) =
     [render [Num 2, Num 3, Num 4], render [Num 1, Num 2, Num 3, Str ''Hello world'']] \<and>
   stdout (snd (run spec_render h0 [])) = [''[2, 3, 4]'', ''[1, 2, 3, "Hello world"]'']\<close>
  by (simp add: run_result spec_render_def show_number_def)

section \<open>The derived sequence\<close>

text \<open>
  C2. For the source sequence A = \<open>[1, 2, 3]\<close>, the sequence B that \<open>map\<close> produces is
  exactly \<open>[2, 3, 4]\<close>: both as the callback applied to each element, and as the
  array that the variable \<open>list\<close> refers to after its declaration.
\<close>

theorem list_is_2_3_4:
  "map add_one [Num 1, Num 2, Num 3] = [Num 2, Num 3, Num 4] \<and>
   (\<exists>list h'. list_init h = (Inr list, h') \<and> lookup h' list = Some [Num 2, Num 3, Num 4])"
  by (simp add: list_init_def alloc_def array_map_ok lookup_append_new to_number_exact
      lookup_def new_array_def nth_append)

text \<open>
  C3, as amended. For every sequence A of integers, each at least \<open>- 2 ^ 53\<close> and less than
  \<open>2 ^ 53\<close>, mapping the add-one callback over A ends normally with a sequence B of the
  length of A, and \<open>B[i] = A[i] + 1\<close> at every index of A.
\<close>

theorem array_map_add_one_exact:
  assumes "lookup h a = Some (map Num ns)"
    and "\<forall>n \<in> set ns. - (2 ^ 53) \<le> n \<and> n < 2 ^ 53"
  shows "\<exists>b h' ys. array_map add_one a h = (Inr b, h') \<and> lookup h' b = Some ys \<and>
           length ys = length ns \<and> (\<forall>i < length ns. ys ! i = Num (ns ! i + 1))"
proof -
  have "array_map add_one a h
      = (Inr (length h), h @ [new_array (map add_one (map Num ns))])"
    using assms(1) by (rule array_map_ok)
  moreover have "lookup (h @ [new_array (map add_one (map Num ns))]) (length h)
      = Some (map add_one (map Num ns))"
    by (rule lookup_append_new)
  moreover have "\<forall>i < length ns. map add_one (map Num ns) ! i = Num (ns ! i + 1)"
    using assms(2) by (simp add: add_one_exact del: add_one.simps)
  ultimately show ?thesis by simp
qed

text \<open>The theorem at the two ends of the range: \<open>- 2 ^ 53\<close> and \<open>2 ^ 53 - 1\<close>.\<close>

theorem array_map_add_one_exact_witness:
  "lookup [new_array [Num (- 9007199254740992), Num 0, Num 9007199254740991]] 0
     = Some (map Num [- 9007199254740992, 0, 9007199254740991]) \<and>
   array_map add_one 0 [new_array [Num (- 9007199254740992), Num 0, Num 9007199254740991]]
     = (Inr 1, [new_array [Num (- 9007199254740992), Num 0, Num 9007199254740991],
                new_array [Num (- 9007199254740991), Num 1, Num 9007199254740992]])"
  using array_map_add_one_exact
    [of "[new_array [Num (- 9007199254740992), Num 0, Num 9007199254740991]]" 0
        "[- 9007199254740992, 0, 9007199254740991]"]
  by (simp add: lookup_def new_array_def array_map_def alloc_def to_number_def round_nat_def
      Let_def bit_len_bound del: bit_len.simps)

text \<open>
  C3 as stated fails at A = \<open>[2 ^ 53]\<close>. The element is a number of the language (rounding
  leaves it as it is), and \<open>2 ^ 53 + 1\<close> is not: the sum is rounded back to \<open>2 ^ 53\<close>, so
  \<open>B[0] = A[0]\<close>, not \<open>A[0] + 1\<close>.
\<close>

theorem array_map_add_one_rounds:
  "to_number 9007199254740992 = 9007199254740992 \<and>
   array_map add_one 0 [new_array [Num 9007199254740992]]
     = (Inr 1, [new_array [Num 9007199254740992], new_array [Num 9007199254740992]]) \<and>
   Num 9007199254740992 \<noteq> Num (9007199254740992 + 1)"
  by (simp add: lookup_def new_array_def array_map_def alloc_def to_number_def round_nat_def
      Let_def)

text \<open>
  C7. Producing B does not modify A: \<open>map\<close> leaves every array of the store as it was,
  the one it is called on included, so after \<open>[1, 2, 3].map(x => x + 1)\<close> the array of the
  literal still holds \<open>[1, 2, 3]\<close>.
\<close>

theorem array_map_keeps_source:
  "(\<forall>r xs. lookup h r = Some xs \<longrightarrow> lookup (snd (array_map f a h)) r = Some xs) \<and>
   (let (a, h1) = alloc [Num 1, Num 2, Num 3] h in
      lookup (snd (array_map add_one a h1)) a = Some [Num 1, Num 2, Num 3])"
proof -
  have "lookup (snd (array_map f a h)) r = Some xs" if "lookup h r = Some xs" for r xs
  proof (cases "lookup h a")
    case None
    then show ?thesis using that by (simp add: array_map_def)
  next
    case (Some ys)
    then show ?thesis using that by (simp add: array_map_ok lookup_append_old)
  qed
  moreover have "lookup (snd (array_map add_one (length h)
      (h @ [new_array [Num 1, Num 2, Num 3]]))) (length h) = Some [Num 1, Num 2, Num 3]"
    by (simp add: array_map_ok [OF lookup_append_new] lookup_append_mid)
  ultimately show ?thesis by (simp add: alloc_def)
qed

theorem array_map_keeps_source_witness:
  "lookup [new_array [Num 1, Num 2, Num 3]] 0 = Some [Num 1, Num 2, Num 3] \<and>
   array_map add_one 0 [new_array [Num 1, Num 2, Num 3]]
     = (Inr 1, [new_array [Num 1, Num 2, Num 3], new_array [Num 2, Num 3, Num 4]]) \<and>
   lookup (snd (array_map add_one 0 [new_array [Num 1, Num 2, Num 3]])) 0
     = Some [Num 1, Num 2, Num 3]"
  using array_map_keeps_source [of "[new_array [Num 1, Num 2, Num 3]]" add_one 0]
  by (simp add: lookup_def new_array_def array_map_def alloc_def to_number_def round_nat_def)

section \<open>The mutation\<close>

text \<open>
  C4. One call of \<open>mutateItems\<close> on C = \<open>[1, 2, 3]\<close> ends normally and leaves
  \<open>[1, 2, 3, "Hello world"]\<close> in C: four elements, the first three the integers 1, 2, 3
  as before, the last the string. Every element was a number before the call; after it
  one is not, against the declared type \<open>Array<number>\<close>.
\<close>

theorem mutateItems_numbers:
  "(let (numbers, h1) = numbers_init h in
    \<exists>h2 ys. mutateItems numbers h1 = (Inr (), h2) \<and> lookup h2 numbers = Some ys \<and>
      ys = [Num 1, Num 2, Num 3, Str ''Hello world''] \<and> length ys = 4 \<and>
      take 3 ys = [Num 1, Num 2, Num 3] \<and> ys ! 3 = Str ''Hello world'' \<and>
      list_all is_number (take 3 ys) \<and> \<not> list_all is_number ys)"
  by (simp add: numbers_init_def alloc_def mutateItems_new_array max_array_length_def
      lookup_append_new)

text \<open>
  C5. \<open>mutateItems\<close> works on the array its argument refers to, not on a copy: on an
  array that can grow (extensible, its length writable and below the greatest length)
  the call returns, with no value, and then the same reference denotes the sequence with
  \<open>"Hello world"\<close> appended, no array has been created, and no other array has changed.
  So it is in the program: after \<open>mutateItems(numbers)\<close> the caller reads the appended
  element through its own variable \<open>numbers\<close>, in a store of as many arrays as before.
\<close>

theorem mutateItems_aliases:
  "(deref h items = Some a \<longrightarrow> extensible a \<longrightarrow> length_writable a \<longrightarrow>
    length (elems a) < max_array_length \<longrightarrow>
     (\<exists>h'. mutateItems items h = (Inr (), h') \<and>
        lookup h' items = Some (elems a @ [Str ''Hello world'']) \<and>
        length h' = length h \<and>
        (\<forall>r. r \<noteq> items \<longrightarrow> deref h' r = deref h r))) \<and>
   (let (numbers, h1) = numbers_init h0 in
      \<exists>h2. mutateItems numbers h1 = (Inr (), h2) \<and>
        lookup h1 numbers = Some [Num 1, Num 2, Num 3] \<and>
        lookup h2 numbers = Some [Num 1, Num 2, Num 3, Str ''Hello world''] \<and>
        length h2 = length h1)"
proof -
  have "\<exists>h'. mutateItems items h = (Inr (), h') \<and>
        lookup h' items = Some (elems a @ [Str ''Hello world'']) \<and>
        length h' = length h \<and>
        (\<forall>r. r \<noteq> items \<longrightarrow> deref h' r = deref h r)"
    if "deref h items = Some a" and "extensible a" and "length_writable a"
      and "length (elems a) < max_array_length"
    using that deref_SomeD [OF that(1)]
    by (simp add: mutateItems_ok lookup_update_same deref_update_other)
  moreover have "let (numbers, h1) = numbers_init h0 in
      \<exists>h2. mutateItems numbers h1 = (Inr (), h2) \<and>
        lookup h1 numbers = Some [Num 1, Num 2, Num 3] \<and>
        lookup h2 numbers = Some [Num 1, Num 2, Num 3, Str ''Hello world''] \<and>
        length h2 = length h1"
    by (simp add: numbers_init_def alloc_def mutateItems_new_array max_array_length_def
        lookup_append_new)
  ultimately show ?thesis by blast
qed

theorem mutateItems_aliases_witness:
  "deref [new_array [Num 1, Num 2, Num 3]] 0 = Some (new_array [Num 1, Num 2, Num 3]) \<and>
   extensible (new_array [Num 1, Num 2, Num 3]) \<and>
   length_writable (new_array [Num 1, Num 2, Num 3]) \<and>
   length (elems (new_array [Num 1, Num 2, Num 3])) < max_array_length \<and>
   mutateItems 0 [new_array [Num 1, Num 2, Num 3]]
     = (Inr (), [new_array [Num 1, Num 2, Num 3, Str ''Hello world'']]) \<and>
   lookup [new_array [Num 1, Num 2, Num 3, Str ''Hello world'']] 0
     = Some [Num 1, Num 2, Num 3, Str ''Hello world'']"
  using mutateItems_aliases
    [of "[new_array [Num 1, Num 2, Num 3]]" 0 "new_array [Num 1, Num 2, Num 3]" "[]"]
  by (simp add: deref_def lookup_def new_array_def max_array_length_def mutateItems_def
      array_push_def)

text \<open>
  C8, as amended. For every sequence, whatever its elements, in an array that can grow
  (extensible, its length writable and less than the greatest array length
  \<open>2 ^ 32 - 1\<close>), one call of \<open>mutateItems\<close> ends normally and makes the sequence longer by
  exactly one, the new element \<open>"Hello world"\<close> at the end.
\<close>

theorem mutateItems_length:
  assumes "deref h items = Some a" and "extensible a" and "length_writable a"
    and "length (elems a) < max_array_length"
  shows "\<exists>h' ys. mutateItems items h = (Inr (), h') \<and> lookup h' items = Some ys \<and>
           length ys = length (elems a) + 1 \<and>
           ys ! length (elems a) = Str ''Hello world'' \<and>
           last ys = Str ''Hello world''"
  using assms deref_SomeD [OF assms(1)]
  by (simp add: mutateItems_ok lookup_update_same)

theorem mutateItems_length_witness:
  "deref [new_array [], new_array [Str ''a'', Num 2]] 1 = Some (new_array [Str ''a'', Num 2]) \<and>
   extensible (new_array [Str ''a'', Num 2]) \<and>
   length_writable (new_array [Str ''a'', Num 2]) \<and>
   length (elems (new_array [Str ''a'', Num 2])) < max_array_length \<and>
   mutateItems 1 [new_array [], new_array [Str ''a'', Num 2]]
     = (Inr (), [new_array [], new_array [Str ''a'', Num 2, Str ''Hello world'']])"
  using mutateItems_length
    [of "[new_array [], new_array [Str ''a'', Num 2]]" 1 "new_array [Str ''a'', Num 2]"]
  by (simp add: deref_def lookup_def new_array_def max_array_length_def mutateItems_def
      array_push_def)

text \<open>
  C8 as stated fails on the sequence \<open>[1, 2, 3]\<close> in an array that cannot grow. After
  \<^verbatim>\<open>Object.preventExtensions\<close> the call raises \<open>TypeError\<close> and the sequence is still
  \<open>[1, 2, 3]\<close>, of length 3 and not 4; so it is with a read-only length.
\<close>

theorem mutateItems_fixed_array:
  "mutateItems 0 [\<lparr>elems = [Num 1, Num 2, Num 3], extensible = False, length_writable = True\<rparr>]
     = (Inl TypeError,
        [\<lparr>elems = [Num 1, Num 2, Num 3], extensible = False, length_writable = True\<rparr>]) \<and>
   lookup (snd (mutateItems 0
       [\<lparr>elems = [Num 1, Num 2, Num 3], extensible = False, length_writable = True\<rparr>])) 0
     = Some [Num 1, Num 2, Num 3] \<and>
   mutateItems 0 [\<lparr>elems = [Num 1, Num 2, Num 3], extensible = True, length_writable = False\<rparr>]
     = (Inl TypeError,
        [\<lparr>elems = [Num 1, Num 2, Num 3], extensible = True, length_writable = False\<rparr>]) \<and>
   length [Num 1, Num 2, Num 3] \<noteq> length [Num 1, Num 2, Num 3] + 1"
  by (simp add: mutateItems_def array_push_def deref_def lookup_def)

text \<open>
  C9. For every sequence, \<open>mutateItems\<close> leaves the elements it finds as they are: after
  the call, whether it returned or raised, the sequence is at least as long as before
  and holds at every index below the old length the element that was there.
\<close>

theorem mutateItems_keeps_elements:
  assumes "lookup h items = Some xs"
  shows "\<exists>ys. lookup (snd (mutateItems items h)) items = Some ys \<and>
           length xs \<le> length ys \<and> (\<forall>i < length xs. ys ! i = xs ! i)"
proof -
  from assms have r: "items < length h" and xs: "elems (h ! items) = xs"
    by (simp_all add: lookup_SomeD)
  then have d: "deref h items = Some (h ! items)"
    by (simp add: deref_def)
  show ?thesis
  proof (cases "extensible (h ! items) \<and> length_writable (h ! items)")
    case False
    then show ?thesis using assms by (simp add: mutateItems_fixed [OF d])
  next
    case grow: True
    show ?thesis
    proof (cases "length xs < max_array_length")
      case True
      then show ?thesis using grow r xs
        by (simp add: mutateItems_ok [OF d] lookup_update_same nth_append)
    next
      case False
      then show ?thesis using grow assms xs by (simp add: mutateItems_full [OF d])
    qed
  qed
qed

theorem mutateItems_keeps_elements_witness:
  "lookup [new_array [Num 7, Str ''x'']] 0 = Some [Num 7, Str ''x''] \<and>
   lookup (snd (mutateItems 0 [new_array [Num 7, Str ''x'']])) 0
     = Some [Num 7, Str ''x'', Str ''Hello world'']"
  using mutateItems_keeps_elements [of "[new_array [Num 7, Str ''x'']]" 0 "[Num 7, Str ''x'']"]
  by (simp add: lookup_def deref_def new_array_def max_array_length_def mutateItems_def
      array_push_def)

section \<open>The run as a whole\<close>

text \<open>
  C6. On the literals of the program no operation raises: the declaration of \<open>list\<close>
  (the literal and \<open>map\<close>) yields its array, the call \<open>mutateItems(numbers)\<close> returns, and
  the run, the two calls of \<open>console.log\<close> included, ends normally. This holds from any
  store and with any input and formatter.
\<close>

theorem no_runtime_error:
  "(\<exists>list h1. list_init h = (Inr list, h1)) \<and>
   (let (numbers, h1) = numbers_init h in \<exists>h2. mutateItems numbers h1 = (Inr (), h2)) \<and>
   fst (run render h inp) = Inr ()"
  by (simp add: run_result list_init_def numbers_init_def alloc_def
      array_map_ok [OF lookup_append_new] mutateItems_new_array max_array_length_def)

text \<open>
  C10. The run is deterministic: its outcome and what it writes to standard output are
  the same in any two runs, whatever store each starts from and whatever input each is
  offered. Nothing outside the program reaches its output.
\<close>

theorem run_deterministic:
  "fst (run render h1 inp1) = fst (run render h2 inp2) \<and>
   stdout (snd (run render h1 inp1)) = stdout (snd (run render h2 inp2))"
  by (simp add: run_result)

end
